theory Spec2Isabelle
  imports Complex_Main
begin

section \<open>Data model\<close>

text \<open>
  A Python \<^verbatim>\<open>datetime\<close> is the number of microseconds since
  0001-01-01T00:00:00 (\<^verbatim>\<open>datetime.min\<close>); the largest one,
  \<^verbatim>\<open>datetime.max\<close>, is 9999-12-31T23:59:59.999999. The difference of two
  datetimes is a \<^verbatim>\<open>timedelta\<close>, again a number of microseconds, whose
  \<^verbatim>\<open>.days\<close> attribute is the floor of the quotient by one day (the seconds and
  microseconds attributes are never negative).

  Python floats are modelled by exact rationals: the properties below are about which
  formula is evaluated, about signs, comparisons against integer thresholds and
  presence of a value, none of which depends on binary rounding.
\<close>

type_synonym datetime = int
type_synonym timedelta = int

definition usec_per_day :: int where
  "usec_per_day = 86400000000"

definition datetime_max :: datetime where
  "datetime_max = 315537897599999999"

definition valid_datetime :: "datetime \<Rightarrow> bool" where
  "valid_datetime t \<longleftrightarrow> 0 \<le> t \<and> t \<le> datetime_max"

definition days :: "timedelta \<Rightarrow> int" where
  \<comment> \<open>\<^verbatim>\<open>td.days\<close>\<close>
  "days td = td div usec_per_day"

definition round_half_even :: "rat \<Rightarrow> int" where
  "round_half_even x =
     (let f = \<lfloor>x\<rfloor>; d = x - of_int f
      in if d < 1 / 2 then f
         else if 1 / 2 < d then f + 1
         else if even f then f else f + 1)"

definition timedelta :: "rat \<Rightarrow> timedelta" where
  \<comment> \<open>\<^verbatim>\<open>timedelta(days=x)\<close> for a float \<open>x\<close>: rounded to the nearest microsecond,
      ties to even\<close>
  "timedelta x = round_half_even (x * of_int usec_per_day)"

datatype exn = StorageFailure | OverflowError

definition datetime_add :: "datetime \<Rightarrow> timedelta \<Rightarrow> exn + datetime" where
  \<comment> \<open>\<^verbatim>\<open>dt + td\<close> raises OverflowError ("date value out of range") outside
      \<^verbatim>\<open>datetime.min .. datetime.max\<close>\<close>
  "datetime_add t td =
     (let r = t + td in if valid_datetime r then Inr r else Inl OverflowError)"

text \<open>
  The columns of \<^verbatim>\<open>PurchaseRecord\<close> that the analytics read. The other columns
  (id, receipt, category, quantity, unit, price, currency, source, notes, bookkeeping
  timestamps) are never read by the services and are left out.
\<close>

record purchase_record =
  user_id :: int
  item_name :: string
  purchase_date :: datetime

text \<open>
  The columns of \<^verbatim>\<open>ProductAnalytics\<close> that the services read or write. A nullable
  column is an \<open>option\<close>. \<^verbatim>\<open>repurchase_urgency\<close> and
  \<^verbatim>\<open>repurchase_probability\<close> are always written as floats by
  \<^verbatim>\<open>update_analytics\<close>, the only writer. The columns id,
  purchase_frequency_pattern, is_seasonal, created_at and updated_at are left out.
\<close>

record product_analytics =
  pa_user_id :: int
  product_name :: string
  total_purchases :: int
  last_purchase_date :: "datetime option"
  avg_days_between_purchases :: "rat option"
  days_since_last_purchase :: "rat option"
  min_days_interval :: "rat option"
  max_days_interval :: "rat option"
  repurchase_urgency :: rat
  repurchase_probability :: rat
  estimated_next_purchase_date :: "datetime option"
  last_analyzed_at :: "datetime option"

text \<open>
  The storage behind a SQLAlchemy session: the two tables, and whether the storage
  answers. Every statement executed (and the commit) on a session whose storage does
  not answer raises. All statements of one call run inside one \<^verbatim>\<open>try\<close> whose
  handler rolls back and returns the same value whichever statement raised, so one flag
  covers every point of failure.
\<close>

record database =
  purchase_records :: "purchase_record list"
  product_analytics_rows :: "product_analytics list"

record session =
  db :: database
  available :: bool

section \<open>Storage statements\<close>

definition select_purchases :: "session \<Rightarrow> int \<Rightarrow> string \<Rightarrow> exn + purchase_record list" where
  \<comment> \<open>\<^verbatim>\<open>select(PurchaseRecord).where(user_id == .., item_name == ..).order_by(purchase_date.asc())\<close>\<close>
  "select_purchases s uid name =
     (if available s
      then Inr (sort_key purchase_date
                 (filter (\<lambda>r. user_id r = uid \<and> item_name r = name) (purchase_records (db s))))
      else Inl StorageFailure)"

definition count_distinct_purchase_dates :: "session \<Rightarrow> int \<Rightarrow> exn + nat" where
  \<comment> \<open>\<^verbatim>\<open>select(func.count(func.distinct(PurchaseRecord.purchase_date))).where(user_id == ..)\<close>\<close>
  "count_distinct_purchase_dates s uid =
     (if available s
      then Inr (length (remdups (map purchase_date
                 (filter (\<lambda>r. user_id r = uid) (purchase_records (db s))))))
      else Inl StorageFailure)"

definition select_analytics :: "session \<Rightarrow> int \<Rightarrow> string \<Rightarrow> exn + product_analytics option" where
  \<comment> \<open>\<^verbatim>\<open>select(ProductAnalytics).where(user_id == .., product_name == ..)\<close>, then
      \<^verbatim>\<open>.scalars().first()\<close>\<close>
  "select_analytics s uid name =
     (if available s
      then Inr (find (\<lambda>a. pa_user_id a = uid \<and> product_name a = name)
                 (product_analytics_rows (db s)))
      else Inl StorageFailure)"

fun replace_first :: "('a \<Rightarrow> bool) \<Rightarrow> 'a \<Rightarrow> 'a list \<Rightarrow> 'a list" where
  "replace_first P y [] = []"
| "replace_first P y (x # xs) = (if P x then y # xs else x # replace_first P y xs)"

definition commit :: "session \<Rightarrow> bool \<Rightarrow> product_analytics \<Rightarrow> exn + session" where
  \<comment> \<open>\<^verbatim>\<open>session.commit()\<close>: the row fetched by \<open>select_analytics\<close> was updated in
      place, or a new row was added to the session\<close>
  "commit s added a =
     (if available s
      then Inr (s\<lparr>db := (db s)\<lparr>product_analytics_rows :=
                 (if added then product_analytics_rows (db s) @ [a]
                  else replace_first
                         (\<lambda>b. pa_user_id b = pa_user_id a \<and> product_name b = product_name a) a
                         (product_analytics_rows (db s)))\<rparr>\<rparr>)
      else Inl StorageFailure)"

section \<open>Analytics service\<close>

fun intervals :: "purchase_record list \<Rightarrow> int list" where
  \<comment> \<open>the loop \<^verbatim>\<open>for i in range(1, len(purchases))\<close>\<close>
  "intervals (p # q # ps) = days (purchase_date q - purchase_date p) # intervals (q # ps)"
| "intervals _ = []"

definition avg_days :: "purchase_record list \<Rightarrow> rat option" where
  "avg_days purchases =
     (let total_purchases = int (length purchases);
          last_purchase_date = purchase_date (last purchases);
          first_purchase_date = purchase_date (hd purchases)
      in if total_purchases > 1
         then (let days_diff = days (last_purchase_date - first_purchase_date)
               in Some (of_int days_diff / of_int (total_purchases - 1)))
         else None)"

fun min_interval :: "int list \<Rightarrow> int option" where
  \<comment> \<open>\<^verbatim>\<open>min(intervals) if intervals else None\<close>; \<^verbatim>\<open>min\<close> scans from the left
      and keeps the first of equal elements\<close>
  "min_interval [] = None"
| "min_interval (x # xs) = Some (foldl (\<lambda>m y. if y < m then y else m) x xs)"

fun max_interval :: "int list \<Rightarrow> int option" where
  \<comment> \<open>\<^verbatim>\<open>max(intervals) if intervals else None\<close>\<close>
  "max_interval [] = None"
| "max_interval (x # xs) = Some (foldl (\<lambda>m y. if m < y then y else m) x xs)"

definition urgency_score :: "rat option \<Rightarrow> int \<Rightarrow> rat" where
  \<comment> \<open>\<^verbatim>\<open>if avg_days and avg_days > 0\<close>: a float is true when it is not zero\<close>
  "urgency_score avg days_since_last =
     (case avg of
        None \<Rightarrow> 0
      | Some a \<Rightarrow> if a \<noteq> 0 \<and> a > 0 then (of_int days_since_last / a) * 100 else 0)"

definition total_purchase_dates :: "nat \<Rightarrow> nat" where
  \<comment> \<open>\<^verbatim>\<open>result_all.scalar() or 1\<close>\<close>
  "total_purchase_dates scalar = (if scalar \<noteq> 0 then scalar else 1)"

definition repurchase_probability_of :: "int \<Rightarrow> nat \<Rightarrow> rat" where
  "repurchase_probability_of n_purchases scalar =
     (of_int n_purchases / of_nat (total_purchase_dates scalar)) * 100"

definition estimated_next :: "rat option \<Rightarrow> datetime \<Rightarrow> exn + datetime option" where
  \<comment> \<open>\<^verbatim>\<open>if avg_days:\<close> is false for \<^verbatim>\<open>None\<close> and for \<^verbatim>\<open>0.0\<close>\<close>
  "estimated_next avg last_date =
     (case avg of
        None \<Rightarrow> Inr None
      | Some a \<Rightarrow>
          if a \<noteq> 0
          then (case datetime_add last_date (timedelta a) of
                  Inl e \<Rightarrow> Inl e
                | Inr t \<Rightarrow> Inr (Some t))
          else Inr None)"

definition float_or_none :: "int option \<Rightarrow> rat option" where
  \<comment> \<open>\<^verbatim>\<open>float(x) if x else None\<close>: false for \<^verbatim>\<open>None\<close> and for \<^verbatim>\<open>0\<close>\<close>
  "float_or_none x =
     (case x of None \<Rightarrow> None | Some v \<Rightarrow> if v \<noteq> 0 then Some (of_int v) else None)"

definition new_product_analytics :: "int \<Rightarrow> string \<Rightarrow> product_analytics" where
  \<comment> \<open>\<^verbatim>\<open>ProductAnalytics(user_id=.., product_name=..)\<close>; every other column modelled
      here is assigned before the commit\<close>
  "new_product_analytics uid name =
     \<lparr>pa_user_id = uid, product_name = name, total_purchases = 0,
      last_purchase_date = None, avg_days_between_purchases = None,
      days_since_last_purchase = None, min_days_interval = None,
      max_days_interval = None, repurchase_urgency = 0, repurchase_probability = 0,
      estimated_next_purchase_date = None, last_analyzed_at = None\<rparr>"

definition update_analytics_try ::
  "datetime \<Rightarrow> session \<Rightarrow> int \<Rightarrow> string \<Rightarrow> exn + (product_analytics option \<times> session)" where
  \<comment> \<open>the body of the \<^verbatim>\<open>try\<close>; \<open>utcnow\<close> is what \<^verbatim>\<open>datetime.utcnow()\<close> returns,
      taken to be the same instant at both places where the source reads the clock\<close>
  "update_analytics_try utcnow s uid name =
     (case select_purchases s uid name of
        Inl e \<Rightarrow> Inl e
      | Inr purchases \<Rightarrow>
          (if purchases = [] then Inr (None, s)
           else
            (let n_purchases = int (length purchases);
                 last_date = purchase_date (last purchases);
                 avg = avg_days purchases;
                 days_since_last = days (utcnow - last_date);
                 ivs = intervals purchases;
                 min_iv = min_interval ivs;
                 max_iv = max_interval ivs;
                 urgency = urgency_score avg days_since_last
             in (case count_distinct_purchase_dates s uid of
                   Inl e \<Rightarrow> Inl e
                 | Inr scalar \<Rightarrow>
                    (let probability = repurchase_probability_of n_purchases scalar
                     in (case estimated_next avg last_date of
                           Inl e \<Rightarrow> Inl e
                         | Inr est \<Rightarrow>
                            (case select_analytics s uid name of
                               Inl e \<Rightarrow> Inl e
                             | Inr found \<Rightarrow>
                                (let analytics =
                                       ((case found of
                                           None \<Rightarrow> new_product_analytics uid name
                                         | Some a \<Rightarrow> a)
                                        \<lparr>total_purchases := n_purchases,
                                         last_purchase_date := Some last_date,
                                         avg_days_between_purchases := avg,
                                         days_since_last_purchase := Some (of_int days_since_last),
                                         min_days_interval := float_or_none min_iv,
                                         max_days_interval := float_or_none max_iv,
                                         repurchase_urgency := urgency,
                                         repurchase_probability := probability,
                                         estimated_next_purchase_date := est,
                                         last_analyzed_at := Some utcnow\<rparr>)
                                 in (case commit s (found = None) analytics of
                                       Inl e \<Rightarrow> Inl e
                                     | Inr s' \<Rightarrow> Inr (Some analytics, s'))))))))))"

definition update_analytics ::
  "datetime \<Rightarrow> session \<Rightarrow> int \<Rightarrow> string \<Rightarrow> product_analytics option \<times> session" where
  \<comment> \<open>\<^verbatim>\<open>except Exception\<close>: roll back, return \<^verbatim>\<open>None\<close>. The caller's session is
      passed in; with no session the source opens one and calls itself with it.\<close>
  "update_analytics utcnow s uid name =
     (case update_analytics_try utcnow s uid name of
        Inl e \<Rightarrow> (None, s)
      | Inr r \<Rightarrow> r)"

section \<open>Methods of the analytics row\<close>

definition get_urgency_status :: "product_analytics \<Rightarrow> string" where
  \<comment> \<open>each label starts with a coloured circle, written here as its UTF-8 bytes\<close>
  "get_urgency_status a =
     (if repurchase_urgency a \<ge> 100 then [CHR 0xF0, CHR 0x9F, CHR 0x94, CHR 0xB4] @ '' OVERDUE''
      else if repurchase_urgency a \<ge> 85 then [CHR 0xF0, CHR 0x9F, CHR 0x9F, CHR 0xA0] @ '' URGENT''
      else if repurchase_urgency a \<ge> 70 then [CHR 0xF0, CHR 0x9F, CHR 0x9F, CHR 0xA1] @ '' SOON''
      else if repurchase_urgency a \<ge> 50 then [CHR 0xF0, CHR 0x9F, CHR 0x9F, CHR 0xA2] @ '' UPCOMING''
      else [CHR 0xE2, CHR 0x9A, CHR 0xAA] @ '' OPTIONAL'')"

text \<open>The five labels, as the source spells them.\<close>

definition label_overdue :: string where
  "label_overdue = [CHR 0xF0, CHR 0x9F, CHR 0x94, CHR 0xB4] @ '' OVERDUE''"

definition label_urgent :: string where
  "label_urgent = [CHR 0xF0, CHR 0x9F, CHR 0x9F, CHR 0xA0] @ '' URGENT''"

definition label_soon :: string where
  "label_soon = [CHR 0xF0, CHR 0x9F, CHR 0x9F, CHR 0xA1] @ '' SOON''"

definition label_upcoming :: string where
  "label_upcoming = [CHR 0xF0, CHR 0x9F, CHR 0x9F, CHR 0xA2] @ '' UPCOMING''"

definition label_optional :: string where
  "label_optional = [CHR 0xE2, CHR 0x9A, CHR 0xAA] @ '' OPTIONAL''"


fun str_nat :: "nat \<Rightarrow> string" where
  \<comment> \<open>decimal digits of a natural number\<close>
  "str_nat n =
     (if n < 10 then [''0123456789'' ! n]
      else str_nat (n div 10) @ [''0123456789'' ! (n mod 10)])"

definition format_0f :: "rat \<Rightarrow> string" where
  \<comment> \<open>\<^verbatim>\<open>f"{x:.0f}"\<close>: the sign, then the magnitude rounded to the nearest integer,
      ties to even\<close>
  "format_0f x = (if x < 0 then ''-'' else []) @ str_nat (nat (round_half_even \<bar>x\<bar>))"

definition get_prediction_message :: "product_analytics \<Rightarrow> string" where
  \<comment> \<open>\<^verbatim>\<open>if self.avg_days_between_purchases and self.days_since_last_purchase\<close>: a
      column is true when it is neither \<^verbatim>\<open>None\<close> nor \<^verbatim>\<open>0.0\<close>\<close>
  "get_prediction_message a =
     (case (avg_days_between_purchases a, days_since_last_purchase a) of
        (Some avg, Some since) \<Rightarrow>
          if avg \<noteq> 0 \<and> since \<noteq> 0
          then ''You usually buy '' @ product_name a @ '' every '' @ format_0f avg
               @ '' days. Last purchase: '' @ format_0f since @ '' days ago.''
          else ''Not enough data for '' @ product_name a @ '' predictions yet.''
      | _ \<Rightarrow> ''Not enough data for '' @ product_name a @ '' predictions yet.'')"

section \<open>Prediction service\<close>

text \<open>
  One entry of the list returned by \<^verbatim>\<open>get_predicted_purchases\<close>; the field
  \<open>pred_k\<close> is the dictionary key \<^verbatim>\<open>"k"\<close>.
\<close>

record prediction =
  pred_product_name :: string
  pred_urgency :: rat
  pred_confidence :: rat
  pred_days_since_last :: int
  pred_avg_interval :: int
  pred_status :: string
  pred_message :: string
  pred_last_purchase :: "string option"
  pred_estimated_next :: "string option"

definition py_int :: "rat \<Rightarrow> int" where
  \<comment> \<open>\<^verbatim>\<open>int(x)\<close> on a float: truncation towards zero\<close>
  "py_int x = (if x \<ge> 0 then \<lfloor>x\<rfloor> else \<lceil>x\<rceil>)"

definition or_0 :: "rat option \<Rightarrow> rat" where
  \<comment> \<open>\<^verbatim>\<open>x or 0\<close>\<close>
  "or_0 x = (case x of None \<Rightarrow> 0 | Some v \<Rightarrow> if v \<noteq> 0 then v else 0)"

definition select_predictions ::
  "session \<Rightarrow> int \<Rightarrow> rat \<Rightarrow> nat \<Rightarrow> exn + product_analytics list" where
  \<comment> \<open>\<^verbatim>\<open>select(ProductAnalytics).where(user_id == .., repurchase_urgency >= threshold,
      repurchase_probability > 0).order_by(repurchase_urgency.desc()).limit(limit)\<close>\<close>
  "select_predictions s uid urgency_threshold limit =
     (if available s
      then Inr (take limit
                 (sort_key (\<lambda>a. - repurchase_urgency a)
                   (filter (\<lambda>a. pa_user_id a = uid
                                \<and> repurchase_urgency a \<ge> urgency_threshold
                                \<and> repurchase_probability a > 0)
                      (product_analytics_rows (db s)))))
      else Inl StorageFailure)"

definition prediction_of :: "(datetime \<Rightarrow> string) \<Rightarrow> product_analytics \<Rightarrow> prediction" where
  \<comment> \<open>the dictionary built in the loop; \<open>isoformat\<close> is the standard library's
      \<^verbatim>\<open>datetime.isoformat\<close>\<close>
  "prediction_of isoformat analytics =
     \<lparr>pred_product_name = product_name analytics,
      pred_urgency = repurchase_urgency analytics,
      pred_confidence = repurchase_probability analytics,
      pred_days_since_last = py_int (or_0 (days_since_last_purchase analytics)),
      pred_avg_interval = py_int (or_0 (avg_days_between_purchases analytics)),
      pred_status = get_urgency_status analytics,
      pred_message = get_prediction_message analytics,
      pred_last_purchase = map_option isoformat (last_purchase_date analytics),
      pred_estimated_next = map_option isoformat (estimated_next_purchase_date analytics)\<rparr>"

definition get_predicted_purchases ::
  "(datetime \<Rightarrow> string) \<Rightarrow> session \<Rightarrow> int \<Rightarrow> rat \<Rightarrow> nat \<Rightarrow> prediction list" where
  \<comment> \<open>\<^verbatim>\<open>except Exception\<close>: return the empty list. The caller's session is passed
      in; with no session the source opens one and calls itself with it.\<close>
  "get_predicted_purchases isoformat s uid urgency_threshold limit =
     (case select_predictions s uid urgency_threshold limit of
        Inl e \<Rightarrow> []
      | Inr analytics_list \<Rightarrow> map (prediction_of isoformat) analytics_list)"

section \<open>Example inputs\<close>

text \<open>
  Concrete stores used to run the model: one user (id 1) buying one product, ``Milk'',
  at the given instants. \<open>at_day d\<close> is midnight \<open>d\<close> days after 0001-01-01;
  day 738000 falls in the year 2021.
\<close>

definition at_day :: "int \<Rightarrow> datetime" where
  "at_day d = d * usec_per_day"

definition purchase_of_milk :: "datetime \<Rightarrow> purchase_record" where
  "purchase_of_milk t = \<lparr>user_id = 1, item_name = ''Milk'', purchase_date = t\<rparr>"

definition milk_session :: "datetime list \<Rightarrow> session" where
  "milk_session ts =
     \<lparr>db = \<lparr>purchase_records = map purchase_of_milk ts, product_analytics_rows = []\<rparr>,
      available = True\<rparr>"

definition half_day_session :: session where
  \<comment> \<open>three purchases twelve hours apart\<close>
  "half_day_session =
     milk_session [at_day 738000, at_day 738000 + 43200000000, at_day 738001]"

definition row_with_urgency :: "rat \<Rightarrow> product_analytics" where
  "row_with_urgency u = (new_product_analytics 1 ''Milk'')\<lparr>repurchase_urgency := u\<rparr>"

definition weekly_session :: session where
  \<comment> \<open>three purchases a week apart\<close>
  "weekly_session = milk_session [at_day 738000, at_day 738007, at_day 738014]"

definition weekly_analytics :: product_analytics where
  \<comment> \<open>the row computed for \<open>weekly_session\<close> a week after the last purchase\<close>
  "weekly_analytics =
     \<lparr>pa_user_id = 1, product_name = ''Milk'', total_purchases = 3,
      last_purchase_date = Some (at_day 738014),
      avg_days_between_purchases = Some 7, days_since_last_purchase = Some 7,
      min_days_interval = Some 7, max_days_interval = Some 7,
      repurchase_urgency = 100, repurchase_probability = 100,
      estimated_next_purchase_date = Some (at_day 738021),
      last_analyzed_at = Some (at_day 738021)\<rparr>"

definition future_session :: session where
  \<comment> \<open>two purchases ten days apart, read five days before the second\<close>
  "future_session = milk_session [at_day 738000, at_day 738010]"

definition same_day_session :: session where
  \<comment> \<open>two purchases an hour apart\<close>
  "same_day_session = milk_session [at_day 738000, at_day 738000 + 3600000000]"

definition same_day_then_week_session :: session where
  \<comment> \<open>two purchases an hour apart, a third one a week after the first\<close>
  "same_day_then_week_session =
     milk_session [at_day 738000, at_day 738000 + 3600000000, at_day 738007]"

definition milk_row :: product_analytics where
  "milk_row = (new_product_analytics 1 ''Milk'')
                \<lparr>avg_days_between_purchases := Some (7 / 2),
                 days_since_last_purchase := Some 3,
                 repurchase_urgency := 600 / 7, repurchase_probability := 100\<rparr>"

definition soap_row :: product_analytics where
  "soap_row = (new_product_analytics 1 ''Soap'')
                \<lparr>repurchase_urgency := 0, repurchase_probability := 50\<rparr>"

definition stored_session :: session where
  \<comment> \<open>a store holding two analytics rows\<close>
  "stored_session =
     \<lparr>db = \<lparr>purchase_records = [], product_analytics_rows = [milk_row, soap_row]\<rparr>,
      available = True\<rparr>"

definition two_product_session :: session where
  \<comment> \<open>user 1 buys ``Milk'' twice and ``Soap'' twice, on four different days; user 2
      buys ``Milk'' once\<close>
  "two_product_session =
     \<lparr>db = \<lparr>purchase_records =
               [\<lparr>user_id = 1, item_name = ''Milk'', purchase_date = at_day 738000\<rparr>,
                \<lparr>user_id = 1, item_name = ''Soap'', purchase_date = at_day 738003\<rparr>,
                \<lparr>user_id = 2, item_name = ''Milk'', purchase_date = at_day 738005\<rparr>,
                \<lparr>user_id = 1, item_name = ''Milk'', purchase_date = at_day 738007\<rparr>,
                \<lparr>user_id = 1, item_name = ''Soap'', purchase_date = at_day 738010\<rparr>],
             product_analytics_rows = []\<rparr>,
      available = True\<rparr>"

section \<open>Basic facts\<close>

declare str_nat.simps [simp del]

lemmas eval_defs = update_analytics_def update_analytics_try_def select_purchases_def
  count_distinct_purchase_dates_def select_analytics_def commit_def
  milk_session_def purchase_of_milk_def at_day_def usec_per_day_def days_def avg_days_def
  urgency_score_def repurchase_probability_of_def total_purchase_dates_def estimated_next_def
  float_or_none_def new_product_analytics_def datetime_add_def valid_datetime_def
  datetime_max_def timedelta_def round_half_even_def Let_def

lemmas label_defs = label_overdue_def label_urgent_def label_soon_def label_upcoming_def
  label_optional_def

lemma available_statements:
  assumes "available s"
  shows "\<exists>ps. select_purchases s uid name = Inr ps"
    and "\<exists>n. count_distinct_purchase_dates s uid = Inr n"
    and "\<exists>f. select_analytics s uid name = Inr f"
    and "\<exists>s'. commit s b a = Inr s'"
  using assms
  by (simp_all add: select_purchases_def count_distinct_purchase_dates_def
      select_analytics_def commit_def)

lemma select_purchases_available:
  "select_purchases s uid name = Inr ps \<Longrightarrow> available s"
  by (simp add: select_purchases_def split: if_splits)

lemma select_purchases_sorted:
  "select_purchases s uid name = Inr ps \<Longrightarrow> sorted (map purchase_date ps)"
  by (auto simp: select_purchases_def split: if_splits)

text \<open>Every field of the row that \<open>update_analytics\<close> returns, read off the source.\<close>

lemma update_analytics_fields:
  assumes "fst (update_analytics utcnow s uid name) = Some r"
  shows "\<exists>ps scalar est.
           select_purchases s uid name = Inr ps \<and> ps \<noteq> []
         \<and> count_distinct_purchase_dates s uid = Inr scalar
         \<and> estimated_next (avg_days ps) (purchase_date (last ps)) = Inr est
         \<and> total_purchases r = int (length ps)
         \<and> last_purchase_date r = Some (purchase_date (last ps))
         \<and> avg_days_between_purchases r = avg_days ps
         \<and> days_since_last_purchase r = Some (of_int (days (utcnow - purchase_date (last ps))))
         \<and> min_days_interval r = float_or_none (min_interval (intervals ps))
         \<and> max_days_interval r = float_or_none (max_interval (intervals ps))
         \<and> repurchase_urgency r
             = urgency_score (avg_days ps) (days (utcnow - purchase_date (last ps)))
         \<and> repurchase_probability r = repurchase_probability_of (int (length ps)) scalar
         \<and> estimated_next_purchase_date r = est
         \<and> last_analyzed_at r = Some utcnow"
  using assms
  by (auto simp: update_analytics_def update_analytics_try_def Let_def
      split: sum.splits if_splits)

text \<open>
  The call returns a row whenever the storage answers, there is a purchase, and the
  forecast date does not leave the range of \<^verbatim>\<open>datetime\<close>.
\<close>

lemma update_analytics_returns:
  assumes "available s"
    and "select_purchases s uid name = Inr ps" and "ps \<noteq> []"
    and "estimated_next (avg_days ps) (purchase_date (last ps)) = Inr est"
  shows "\<exists>r. fst (update_analytics utcnow s uid name) = Some r"
  using assms available_statements(2)[OF assms(1), of uid]
    available_statements(3)[OF assms(1), of uid name]
  by (auto simp: update_analytics_def update_analytics_try_def Let_def commit_def
      split: sum.splits if_splits)

lemma estimated_next_None [simp]: "estimated_next None l = Inr None"
  by (simp add: estimated_next_def)

lemma estimated_next_in_range:
  assumes "valid_datetime (l + timedelta a)"
  shows "\<exists>est. estimated_next (Some a) l = Inr est"
  using assms by (simp add: estimated_next_def datetime_add_def)

section \<open>Average interval\<close>

text \<open>
  C1. For a purchase sequence of length \<open>n \<ge> 2\<close>, fetched in ascending order of
  purchase date, \<open>update_analytics\<close> returns a row whose average interval is the
  whole days between the first and the last purchase divided by \<open>n - 1\<close>: the span
  formula, not the mean of the consecutive gaps. The last hypothesis says that the
  forecast date computed in the same call stays within the range of \<^verbatim>\<open>datetime\<close>.
\<close>

theorem avg_interval_span_based:
  assumes "select_purchases s uid name = Inr ps" and "2 \<le> length ps"
    and "valid_datetime (purchase_date (last ps)
           + timedelta (of_int (days (purchase_date (last ps) - purchase_date (hd ps)))
                        / of_int (int (length ps) - 1)))"
  shows "\<exists>r. fst (update_analytics utcnow s uid name) = Some r
           \<and> avg_days_between_purchases r
               = Some (of_int (days (purchase_date (last ps) - purchase_date (hd ps)))
                       / of_int (int (length ps) - 1))"
proof -
  let ?avg = "of_int (days (purchase_date (last ps) - purchase_date (hd ps)))
                / of_int (int (length ps) - 1) :: rat"
  have av: "available s"
    using assms(1) by (rule select_purchases_available)
  have ne: "ps \<noteq> []"
    using assms(2) by auto
  have avg: "avg_days ps = Some ?avg"
    using assms(2) by (simp add: avg_days_def)
  from estimated_next_in_range [OF assms(3)] avg
  obtain est where "estimated_next (avg_days ps) (purchase_date (last ps)) = Inr est"
    by auto
  from update_analytics_returns [OF av assms(1) ne this]
  obtain r where r: "fst (update_analytics utcnow s uid name) = Some r"
    by auto
  from update_analytics_fields [OF r] assms(1) avg
  have "avg_days_between_purchases r = Some ?avg"
    by auto
  with r show ?thesis by blast
qed

text \<open>
  Three purchases twelve hours apart: the span is one whole day, so the average is
  1/2, while both consecutive gaps are 0 whole days and their mean is 0.
\<close>

theorem avg_interval_span_based_witness:
  "select_purchases half_day_session 1 ''Milk''
     = Inr [purchase_of_milk (at_day 738000), purchase_of_milk (at_day 738000 + 43200000000),
            purchase_of_milk (at_day 738001)]
 \<and> (\<exists>r. fst (update_analytics (at_day 738002) half_day_session 1 ''Milk'') = Some r
          \<and> avg_days_between_purchases r = Some (1 / 2))
 \<and> intervals [purchase_of_milk (at_day 738000), purchase_of_milk (at_day 738000 + 43200000000),
            purchase_of_milk (at_day 738001)] = [0, 0]"
proof -
  let ?ps = "[purchase_of_milk (at_day 738000), purchase_of_milk (at_day 738000 + 43200000000),
            purchase_of_milk (at_day 738001)]"
  have h1: "select_purchases half_day_session 1 ''Milk'' = Inr ?ps"
    by (simp add: select_purchases_def half_day_session_def milk_session_def
        purchase_of_milk_def at_day_def usec_per_day_def)
  have h2: "2 \<le> length ?ps"
    by simp
  have h3: "valid_datetime (purchase_date (last ?ps)
           + timedelta (of_int (days (purchase_date (last ?ps) - purchase_date (hd ?ps)))
                        / of_int (int (length ?ps) - 1)))"
    by (simp add: eval_defs)
  have iv: "intervals ?ps = [0, 0]"
    by (simp add: eval_defs)
  have "of_int (days (purchase_date (last ?ps) - purchase_date (hd ?ps)))
                        / of_int (int (length ?ps) - 1) = (1 / 2 :: rat)"
    by (simp add: eval_defs)
  with avg_interval_span_based [OF h1 h2 h3, of "at_day 738002"] h1 iv show ?thesis
    by simp
qed

section \<open>Single purchase\<close>

text \<open>
  C8. When exactly one purchase of the product is stored, \<open>update_analytics\<close> returns
  a row whose average interval, shortest and longest interval and forecast date are all
  absent and whose urgency is 0.
\<close>

theorem single_purchase_analytics:
  assumes "select_purchases s uid name = Inr [p]"
  shows "\<exists>r. fst (update_analytics utcnow s uid name) = Some r
           \<and> total_purchases r = 1
           \<and> avg_days_between_purchases r = None
           \<and> min_days_interval r = None
           \<and> max_days_interval r = None
           \<and> estimated_next_purchase_date r = None
           \<and> repurchase_urgency r = 0"
proof -
  have av: "available s"
    using assms by (rule select_purchases_available)
  have avg: "avg_days [p] = None"
    by (simp add: avg_days_def)
  then have "estimated_next (avg_days [p]) (purchase_date (last [p])) = Inr None"
    by simp
  from update_analytics_returns [OF av assms _ this]
  obtain r where r: "fst (update_analytics utcnow s uid name) = Some r"
    by auto
  from update_analytics_fields [OF r] assms avg
  have "total_purchases r = 1" "avg_days_between_purchases r = None"
    "min_days_interval r = None" "max_days_interval r = None"
    "estimated_next_purchase_date r = None" "repurchase_urgency r = 0"
    by (auto simp: float_or_none_def urgency_score_def)
  with r show ?thesis by blast
qed

theorem single_purchase_analytics_witness:
  "select_purchases (milk_session [at_day 738000]) 1 ''Milk''
     = Inr [purchase_of_milk (at_day 738000)]
 \<and> (\<exists>r. fst (update_analytics (at_day 738030) (milk_session [at_day 738000]) 1 ''Milk'') = Some r
           \<and> total_purchases r = 1
           \<and> avg_days_between_purchases r = None
           \<and> min_days_interval r = None
           \<and> max_days_interval r = None
           \<and> estimated_next_purchase_date r = None
           \<and> repurchase_urgency r = 0)"
proof -
  have h: "select_purchases (milk_session [at_day 738000]) 1 ''Milk''
     = Inr [purchase_of_milk (at_day 738000)]"
    by (simp add: select_purchases_def milk_session_def purchase_of_milk_def)
  from single_purchase_analytics [OF h, of "at_day 738030"] h show ?thesis
    by simp
qed

section \<open>Repurchase probability\<close>

text \<open>
  The guard \<^verbatim>\<open>scalar() or 1\<close>: for every count, zero included, the denominator is
  \<open>max occasions 1\<close> and is not zero.
\<close>

lemma total_purchase_dates_guard:
  "total_purchase_dates occasions = max occasions 1 \<and> total_purchase_dates occasions \<noteq> 0"
  by (simp add: total_purchase_dates_def max_def)

lemma repurchase_probability_of_max:
  "repurchase_probability_of n occasions = (of_int n / of_nat (max occasions 1)) * 100"
  by (simp add: repurchase_probability_of_def total_purchase_dates_guard)

text \<open>The row returned by \<open>update_analytics\<close> carries exactly this value.\<close>

lemma update_analytics_probability:
  assumes "fst (update_analytics utcnow s uid name) = Some r"
  shows "\<exists>ps occasions.
           select_purchases s uid name = Inr ps
         \<and> count_distinct_purchase_dates s uid = Inr occasions
         \<and> repurchase_probability r
             = repurchase_probability_of (int (length ps)) occasions"
  using update_analytics_fields [OF assms] by blast

text \<open>
  C6. Let \<open>ps\<close> be the purchases of the product that \<open>update_analytics\<close> fetches, not
  empty, and \<open>occasions\<close> the number of distinct purchase dates of the user that its
  count query returns. Then the call returns a row whose purchase count is the length of
  \<open>ps\<close> and whose repurchase probability is that count divided by
  \<open>max occasions 1\<close>, times 100. The denominator the source uses,
  \<^verbatim>\<open>scalar() or 1\<close>, equals \<open>max k 1\<close> for every count \<open>k\<close>, zero included, and is
  never zero. The last hypothesis says that the forecast date computed in the same call
  stays within the range of \<^verbatim>\<open>datetime\<close>, so that a row is returned.
\<close>

theorem repurchase_probability_guarded:
  assumes "select_purchases s uid name = Inr ps" and "ps \<noteq> []"
    and "count_distinct_purchase_dates s uid = Inr occasions"
    and "estimated_next (avg_days ps) (purchase_date (last ps)) = Inr est"
  shows "(\<exists>r. fst (update_analytics utcnow s uid name) = Some r
            \<and> total_purchases r = int (length ps)
            \<and> repurchase_probability r
                = (of_int (total_purchases r) / of_nat (max occasions 1)) * 100)
       \<and> (\<forall>k. total_purchase_dates k = max k 1 \<and> total_purchase_dates k \<noteq> 0)"
proof -
  have av: "available s"
    using assms(1) by (rule select_purchases_available)
  from update_analytics_returns [OF av assms(1) assms(2) assms(4)]
  obtain r where r: "fst (update_analytics utcnow s uid name) = Some r"
    by auto
  from update_analytics_fields [OF r] assms(1) assms(3)
  have n: "total_purchases r = int (length ps)"
    and p: "repurchase_probability r = repurchase_probability_of (int (length ps)) occasions"
    by auto
  from p n have "repurchase_probability r
                   = (of_int (total_purchases r) / of_nat (max occasions 1)) * 100"
    by (simp add: repurchase_probability_of_max)
  with r n show ?thesis
    using total_purchase_dates_guard by blast
qed

text \<open>
  User 1 bought ``Milk'' twice and shopped on four different days: the probability
  stored for ``Milk'' is 2 / 4 * 100 = 50.
\<close>

theorem repurchase_probability_guarded_witness:
  "select_purchases two_product_session 1 ''Milk''
     = Inr [\<lparr>user_id = 1, item_name = ''Milk'', purchase_date = at_day 738000\<rparr>,
            \<lparr>user_id = 1, item_name = ''Milk'', purchase_date = at_day 738007\<rparr>]
 \<and> count_distinct_purchase_dates two_product_session 1 = Inr 4
 \<and> (\<exists>r. fst (update_analytics (at_day 738014) two_product_session 1 ''Milk'') = Some r
        \<and> total_purchases r = 2
        \<and> repurchase_probability r = 50)"
proof -
  let ?ps = "[\<lparr>user_id = 1, item_name = ''Milk'', purchase_date = at_day 738000\<rparr>,
              \<lparr>user_id = 1, item_name = ''Milk'', purchase_date = at_day 738007\<rparr>]"
  have h1: "select_purchases two_product_session 1 ''Milk'' = Inr ?ps"
    by (simp add: select_purchases_def two_product_session_def at_day_def usec_per_day_def)
  have h2: "?ps \<noteq> []"
    by simp
  have h3: "count_distinct_purchase_dates two_product_session 1 = Inr 4"
    by (simp add: count_distinct_purchase_dates_def two_product_session_def at_day_def
        usec_per_day_def)
  have h4: "estimated_next (avg_days ?ps) (purchase_date (last ?ps))
              = Inr (Some (at_day 738014))"
    by (simp add: eval_defs)
  from repurchase_probability_guarded [OF h1 h2 h3 h4, of "at_day 738014"]
  obtain r where r: "fst (update_analytics (at_day 738014) two_product_session 1 ''Milk'') = Some r"
    and n: "total_purchases r = int (length ?ps)"
    and p: "repurchase_probability r = (of_int (total_purchases r) / of_nat (max 4 1)) * 100"
    by blast
  from n have n2: "total_purchases r = 2"
    by simp
  from p n2 have "repurchase_probability r = 50"
    by simp
  with r n2 h1 h3 show ?thesis
    by blast
qed

section \<open>Status labels\<close>

text \<open>
  C7. The status label has inclusive lower bounds: an urgency of at least 100 is
  OVERDUE, from 85 up to but excluding 100 URGENT, from 70 up to but excluding 85 SOON,
  from 50 up to but excluding 70 UPCOMING, and below 50 OPTIONAL. The five labels are
  pairwise different, so every urgency has exactly one.
\<close>

theorem urgency_status_tiers:
  "(100 \<le> repurchase_urgency a \<longrightarrow> get_urgency_status a = label_overdue)
 \<and> (85 \<le> repurchase_urgency a \<and> repurchase_urgency a < 100
      \<longrightarrow> get_urgency_status a = label_urgent)
 \<and> (70 \<le> repurchase_urgency a \<and> repurchase_urgency a < 85
      \<longrightarrow> get_urgency_status a = label_soon)
 \<and> (50 \<le> repurchase_urgency a \<and> repurchase_urgency a < 70
      \<longrightarrow> get_urgency_status a = label_upcoming)
 \<and> (repurchase_urgency a < 50 \<longrightarrow> get_urgency_status a = label_optional)
 \<and> distinct [label_overdue, label_urgent, label_soon, label_upcoming, label_optional]"
  by (simp add: get_urgency_status_def label_defs)

theorem urgency_status_tiers_witness:
  "get_urgency_status (row_with_urgency 100) = label_overdue
 \<and> get_urgency_status (row_with_urgency 85) = label_urgent
 \<and> get_urgency_status (row_with_urgency 70) = label_soon
 \<and> get_urgency_status (row_with_urgency 50) = label_upcoming
 \<and> get_urgency_status (row_with_urgency (49999 / 1000)) = label_optional"
  using urgency_status_tiers [of "row_with_urgency 100"]
    urgency_status_tiers [of "row_with_urgency 85"]
    urgency_status_tiers [of "row_with_urgency 70"]
    urgency_status_tiers [of "row_with_urgency 50"]
    urgency_status_tiers [of "row_with_urgency (49999 / 1000)"]
  by (simp add: row_with_urgency_def)

section \<open>Ranking under storage failure\<close>

text \<open>
  C9. Whatever exception the storage raises while the ranking query runs,
  \<open>get_predicted_purchases\<close> returns the empty list.
\<close>

theorem predicted_purchases_storage_failure:
  "select_predictions s uid urgency_threshold limit = Inl e
   \<Longrightarrow> get_predicted_purchases isoformat s uid urgency_threshold limit = []"
  by (simp add: get_predicted_purchases_def)

theorem predicted_purchases_storage_failure_witness:
  "select_predictions ((milk_session [at_day 738000])\<lparr>available := False\<rparr>) 1 0 10
     = Inl StorageFailure
 \<and> get_predicted_purchases (\<lambda>t. []) ((milk_session [at_day 738000])\<lparr>available := False\<rparr>) 1 0 10
     = []"
proof -
  have h: "select_predictions ((milk_session [at_day 738000])\<lparr>available := False\<rparr>) 1 0 10
     = Inl StorageFailure"
    by (simp add: select_predictions_def)
  from predicted_purchases_storage_failure [OF h] h show ?thesis
    by simp
qed

section \<open>Urgency score\<close>

text \<open>
  C2, as the source has it. In the row that \<open>update_analytics\<close> returns, the
  urgency is 0 whenever the average interval is absent or not positive. Otherwise it is
  the whole days since the last purchase divided by the average interval, times 100;
  it is then non-negative exactly when the last purchase is not later than the clock
  reading, and 0 exactly when less than one whole day has passed since the last
  purchase.
\<close>

theorem urgency_score_sign:
  assumes "fst (update_analytics utcnow s uid name) = Some r"
  shows "\<exists>l. last_purchase_date r = Some l
           \<and> days_since_last_purchase r = Some (of_int (days (utcnow - l)))
           \<and> (case avg_days_between_purchases r of
                 None \<Rightarrow> repurchase_urgency r = 0
               | Some a \<Rightarrow>
                   if a \<le> 0 then repurchase_urgency r = 0
                   else repurchase_urgency r = (of_int (days (utcnow - l)) / a) * 100
                        \<and> (0 \<le> repurchase_urgency r \<longleftrightarrow> l \<le> utcnow)
                        \<and> (repurchase_urgency r = 0
                             \<longleftrightarrow> l \<le> utcnow \<and> utcnow - l < usec_per_day))"
proof -
  from update_analytics_fields [OF assms] obtain ps where
    l: "last_purchase_date r = Some (purchase_date (last ps))"
    and d: "days_since_last_purchase r
              = Some (of_int (days (utcnow - purchase_date (last ps))))"
    and a: "avg_days_between_purchases r = avg_days ps"
    and u: "repurchase_urgency r
              = urgency_score (avg_days ps) (days (utcnow - purchase_date (last ps)))"
    by blast
  let ?l = "purchase_date (last ps)"
  let ?d = "days (utcnow - ?l)"
  have nonneg: "0 \<le> ?d \<longleftrightarrow> ?l \<le> utcnow"
    by (simp add: days_def usec_per_day_def pos_imp_zdiv_nonneg_iff)
  have zero: "?d = 0 \<longleftrightarrow> ?l \<le> utcnow \<and> utcnow - ?l < usec_per_day"
    by (auto simp: days_def usec_per_day_def div_eq_0_iff)
  have "case avg_days ps of
          None \<Rightarrow> repurchase_urgency r = 0
        | Some a \<Rightarrow>
            if a \<le> 0 then repurchase_urgency r = 0
            else repurchase_urgency r = (of_int ?d / a) * 100
                 \<and> (0 \<le> repurchase_urgency r \<longleftrightarrow> ?l \<le> utcnow)
                 \<and> (repurchase_urgency r = 0 \<longleftrightarrow> ?l \<le> utcnow \<and> utcnow - ?l < usec_per_day)"
  proof (cases "avg_days ps")
    case None
    then show ?thesis using u by (simp add: urgency_score_def)
  next
    case (Some a)
    show ?thesis
    proof (cases "a \<le> 0")
      case True
      then show ?thesis using Some u by (simp add: urgency_score_def)
    next
      case False
      then have pos: "0 < a" by simp
      have val: "repurchase_urgency r = (of_int ?d / a) * 100"
        using Some u pos by (simp add: urgency_score_def)
      have s1: "0 \<le> (of_int ?d / a) * 100 \<longleftrightarrow> 0 \<le> ?d"
        using pos by (simp add: zero_le_mult_iff zero_le_divide_iff)
      have s2: "(of_int ?d / a) * 100 = 0 \<longleftrightarrow> ?d = 0"
        using pos by simp
      show ?thesis
        using Some False val s1 s2 nonneg zero by simp
    qed
  qed
  with l d a show ?thesis by simp
qed

lemma weekly_session_row:
  "fst (update_analytics (at_day 738021) weekly_session 1 ''Milk'') = Some weekly_analytics"
  by (simp add: weekly_session_def weekly_analytics_def eval_defs)

theorem urgency_score_sign_witness:
  "fst (update_analytics (at_day 738021) weekly_session 1 ''Milk'') = Some weekly_analytics
 \<and> (\<exists>l. last_purchase_date weekly_analytics = Some l
        \<and> days_since_last_purchase weekly_analytics
            = Some (of_int (days (at_day 738021 - l)))
        \<and> (case avg_days_between_purchases weekly_analytics of
              None \<Rightarrow> repurchase_urgency weekly_analytics = 0
            | Some a \<Rightarrow>
                if a \<le> 0 then repurchase_urgency weekly_analytics = 0
                else repurchase_urgency weekly_analytics
                       = (of_int (days (at_day 738021 - l)) / a) * 100
                     \<and> (0 \<le> repurchase_urgency weekly_analytics \<longleftrightarrow> l \<le> at_day 738021)
                     \<and> (repurchase_urgency weekly_analytics = 0
                          \<longleftrightarrow> l \<le> at_day 738021 \<and> at_day 738021 - l < usec_per_day)))"
  using urgency_score_sign [OF weekly_session_row] weekly_session_row
  by simp

text \<open>
  Two purchases ten days apart, analysed five days before the second one: the average
  interval is 10, the last purchase is five days ahead of the clock, and the urgency
  is -50.
\<close>

theorem urgency_negative_counterexample:
  "at_day 738005 < at_day 738010
 \<and> map_option avg_days_between_purchases
      (fst (update_analytics (at_day 738005) future_session 1 ''Milk'')) = Some (Some 10)
 \<and> map_option repurchase_urgency
      (fst (update_analytics (at_day 738005) future_session 1 ''Milk'')) = Some (- 50)"
  by (simp add: future_session_def eval_defs)

section \<open>Shortest and longest interval\<close>

lemma foldl_min_Min:
  "foldl (\<lambda>m y. if y < m then y else m) (x :: int) xs = Min (set (x # xs))"
proof -
  have "(\<lambda>y m :: int. if y < m then y else m) = min"
    by (auto simp: fun_eq_iff min_def)
  then show ?thesis
    unfolding Min.set_eq_fold foldl_conv_fold by simp
qed

lemma foldl_max_Max:
  "foldl (\<lambda>m y. if m < y then y else m) (x :: int) xs = Max (set (x # xs))"
proof -
  have "(\<lambda>y m :: int. if m < y then y else m) = max"
    by (auto simp: fun_eq_iff max_def)
  then show ?thesis
    unfolding Max.set_eq_fold foldl_conv_fold by simp
qed

lemma min_interval_Min: "ivs \<noteq> [] \<Longrightarrow> min_interval ivs = Some (Min (set ivs))"
  by (cases ivs) (simp_all add: foldl_min_Min del: set_simps)

lemma max_interval_Max: "ivs \<noteq> [] \<Longrightarrow> max_interval ivs = Some (Max (set ivs))"
  by (cases ivs) (simp_all add: foldl_max_Max del: set_simps)

lemma intervals_length: "length (intervals ps) = length ps - 1"
  by (induction ps rule: intervals.induct) simp_all

lemma intervals_nonempty: "intervals ps \<noteq> [] \<longleftrightarrow> 2 \<le> length ps"
  using intervals_length [of ps] by (cases "intervals ps") auto

text \<open>
  What the source stores for two or more purchases: the extreme of the gaps, unless
  that extreme is 0, in which case the column is left empty.
\<close>

lemma interval_extremes_stored:
  assumes "fst (update_analytics utcnow s uid name) = Some r"
    and "select_purchases s uid name = Inr ps" and "2 \<le> length ps"
  shows "min_days_interval r
           = (if Min (set (intervals ps)) = 0 then None
              else Some (of_int (Min (set (intervals ps)))))"
    and "max_days_interval r
           = (if Max (set (intervals ps)) = 0 then None
              else Some (of_int (Max (set (intervals ps)))))"
proof -
  have ne: "intervals ps \<noteq> []"
    using assms(3) by (simp add: intervals_nonempty)
  from update_analytics_fields [OF assms(1)] assms(2)
  have "min_days_interval r = float_or_none (min_interval (intervals ps))"
    and "max_days_interval r = float_or_none (max_interval (intervals ps))"
    by auto
  then show "min_days_interval r
           = (if Min (set (intervals ps)) = 0 then None
              else Some (of_int (Min (set (intervals ps)))))"
    and "max_days_interval r
           = (if Max (set (intervals ps)) = 0 then None
              else Some (of_int (Max (set (intervals ps)))))"
    by (simp_all add: min_interval_Min [OF ne] max_interval_Max [OF ne] float_or_none_def)
qed

text \<open>
  C3 says that with two or more purchases the shortest and the longest interval are
  both present and are the minimum and the maximum of the consecutive gaps. Here the
  source is run on three purchases, the second one hour after the first and the third
  a week after the first: the gaps are 0 and 6 whole days, the longest interval is
  stored as 6, and the shortest interval, which is 0, is stored as absent.
\<close>

theorem zero_gap_min_interval_absent:
  "select_purchases same_day_then_week_session 1 ''Milk''
     = Inr [purchase_of_milk (at_day 738000), purchase_of_milk (at_day 738000 + 3600000000),
            purchase_of_milk (at_day 738007)]
 \<and> intervals [purchase_of_milk (at_day 738000), purchase_of_milk (at_day 738000 + 3600000000),
              purchase_of_milk (at_day 738007)] = [0, 6]
 \<and> map_option min_days_interval
      (fst (update_analytics (at_day 738010) same_day_then_week_session 1 ''Milk'')) = Some None
 \<and> map_option max_days_interval
      (fst (update_analytics (at_day 738010) same_day_then_week_session 1 ''Milk''))
      = Some (Some 6)"
  by (simp add: same_day_then_week_session_def eval_defs)

section \<open>Forecast date\<close>

lemma estimated_next_value:
  assumes "estimated_next avg l = Inr est"
  shows "est = (case avg of
                  None \<Rightarrow> None
                | Some a \<Rightarrow> if a = 0 then None else Some (l + timedelta a))"
proof (cases avg)
  case None
  then show ?thesis using assms by simp
next
  case (Some a)
  show ?thesis
  proof (cases "a = 0")
    case True
    then show ?thesis using assms Some by (simp add: estimated_next_def)
  next
    case False
    then show ?thesis
      using assms Some
      by (simp add: estimated_next_def datetime_add_def Let_def split: if_splits)
  qed
qed

text \<open>
  What the source stores: a forecast, the last purchase date plus the average interval,
  when the average interval is present and not 0, and nothing otherwise.
\<close>

lemma estimated_next_stored:
  assumes "fst (update_analytics utcnow s uid name) = Some r"
  shows "\<exists>l. last_purchase_date r = Some l
           \<and> estimated_next_purchase_date r
               = (case avg_days_between_purchases r of
                    None \<Rightarrow> None
                  | Some a \<Rightarrow> if a = 0 then None else Some (l + timedelta a))"
proof -
  from update_analytics_fields [OF assms] obtain ps est where
    e: "estimated_next (avg_days ps) (purchase_date (last ps)) = Inr est"
    and l: "last_purchase_date r = Some (purchase_date (last ps))"
    and a: "avg_days_between_purchases r = avg_days ps"
    and r: "estimated_next_purchase_date r = est"
    by blast
  from estimated_next_value [OF e] l a r show ?thesis
    by simp
qed

text \<open>
  C4 says that the forecast date is present exactly when the average interval is,
  also when the average interval is 0. Here the source is run on two purchases one hour
  apart: the average interval is stored as 0, and the forecast date is stored as
  absent.
\<close>

theorem zero_average_no_forecast:
  "map_option total_purchases
      (fst (update_analytics (at_day 738003) same_day_session 1 ''Milk'')) = Some 2
 \<and> map_option avg_days_between_purchases
      (fst (update_analytics (at_day 738003) same_day_session 1 ''Milk'')) = Some (Some 0)
 \<and> map_option estimated_next_purchase_date
      (fst (update_analytics (at_day 738003) same_day_session 1 ''Milk'')) = Some None"
  by (simp add: same_day_session_def eval_defs)

section \<open>Prediction message\<close>

lemma prediction_message_full:
  assumes "avg_days_between_purchases a = Some avg" and "avg \<noteq> 0"
    and "days_since_last_purchase a = Some since" and "since \<noteq> 0"
  shows "get_prediction_message a
           = ''You usually buy '' @ product_name a @ '' every '' @ format_0f avg
             @ '' days. Last purchase: '' @ format_0f since @ '' days ago.''"
  using assms by (simp add: get_prediction_message_def)

lemma prediction_message_not_enough:
  assumes "avg_days_between_purchases a = None \<or> avg_days_between_purchases a = Some 0
         \<or> days_since_last_purchase a = None \<or> days_since_last_purchase a = Some 0"
  shows "get_prediction_message a
           = ''Not enough data for '' @ product_name a @ '' predictions yet.''"
  using assms by (auto simp: get_prediction_message_def split: option.splits)

lemma weekly_session_message:
  "map_option get_prediction_message
     (fst (update_analytics (at_day 738021) weekly_session 1 ''Milk''))
   = Some ''You usually buy Milk every 7 days. Last purchase: 7 days ago.''"
  by (simp add: weekly_session_def eval_defs get_prediction_message_def format_0f_def
      str_nat.simps)

text \<open>
  C5 says that the full message is produced whenever the average interval and the days
  since the last purchase are both present, also when one of them is 0. Here the source
  is run on three weekly purchases, five hours after the last one: the average interval
  is stored as 7 and the days since the last purchase as 0, both present, and the
  message is the one for missing data.
\<close>

theorem bought_today_message:
  "map_option avg_days_between_purchases
      (fst (update_analytics (at_day 738014 + 18000000000) weekly_session 1 ''Milk''))
      = Some (Some 7)
 \<and> map_option days_since_last_purchase
      (fst (update_analytics (at_day 738014 + 18000000000) weekly_session 1 ''Milk''))
      = Some (Some 0)
 \<and> map_option get_prediction_message
      (fst (update_analytics (at_day 738014 + 18000000000) weekly_session 1 ''Milk''))
      = Some ''Not enough data for Milk predictions yet.''"
  by (simp add: weekly_session_def eval_defs get_prediction_message_def)

section \<open>Prediction views\<close>

lemma select_predictions_subset:
  assumes "select_predictions s uid urgency_threshold limit = Inr rows"
  shows "set rows \<subseteq> set (product_analytics_rows (db s))"
proof -
  have "set rows \<subseteq> set (sort_key (\<lambda>a. - repurchase_urgency a)
                   (filter (\<lambda>a. pa_user_id a = uid
                                \<and> repurchase_urgency a \<ge> urgency_threshold
                                \<and> repurchase_probability a > 0)
                      (product_analytics_rows (db s))))"
    using assms by (auto simp: select_predictions_def split: if_splits dest: in_set_takeD)
  then show ?thesis by auto
qed

lemma py_int_or_0:
  "py_int (or_0 x) = (case x of None \<Rightarrow> 0 | Some v \<Rightarrow> if 0 \<le> v then \<lfloor>v\<rfloor> else \<lceil>v\<rceil>)"
  by (simp add: py_int_def or_0_def split: option.splits)

text \<open>
  C10. Every entry returned by \<open>get_predicted_purchases\<close> comes from a stored
  analytics row, and its two day counts are integers: 0 when the stored column is
  absent (or 0), and otherwise the stored value truncated towards zero.
\<close>

theorem prediction_view_integer_fields:
  assumes "p \<in> set (get_predicted_purchases isoformat s uid urgency_threshold limit)"
  shows "\<exists>a \<in> set (product_analytics_rows (db s)).
           pred_product_name p = product_name a
         \<and> pred_days_since_last p
             = (case days_since_last_purchase a of
                  None \<Rightarrow> 0
                | Some v \<Rightarrow> if 0 \<le> v then \<lfloor>v\<rfloor> else \<lceil>v\<rceil>)
         \<and> pred_avg_interval p
             = (case avg_days_between_purchases a of
                  None \<Rightarrow> 0
                | Some v \<Rightarrow> if 0 \<le> v then \<lfloor>v\<rfloor> else \<lceil>v\<rceil>)"
proof (cases "select_predictions s uid urgency_threshold limit")
  case (Inl e)
  then show ?thesis using assms by (simp add: get_predicted_purchases_def)
next
  case (Inr rows)
  with assms obtain a where a: "a \<in> set rows" and p: "p = prediction_of isoformat a"
    by (auto simp: get_predicted_purchases_def)
  from a select_predictions_subset [OF Inr]
  have "a \<in> set (product_analytics_rows (db s))" by auto
  moreover have "pred_product_name p = product_name a"
    using p by (simp add: prediction_of_def)
  moreover have "pred_days_since_last p
             = (case days_since_last_purchase a of
                  None \<Rightarrow> 0
                | Some v \<Rightarrow> if 0 \<le> v then \<lfloor>v\<rfloor> else \<lceil>v\<rceil>)"
    using p by (simp add: prediction_of_def py_int_or_0)
  moreover have "pred_avg_interval p
             = (case avg_days_between_purchases a of
                  None \<Rightarrow> 0
                | Some v \<Rightarrow> if 0 \<le> v then \<lfloor>v\<rfloor> else \<lceil>v\<rceil>)"
    using p by (simp add: prediction_of_def py_int_or_0)
  ultimately show ?thesis by blast
qed

text \<open>
  A store with two rows: ``Milk'' with an average interval of 3.5 days, bought 3 days
  ago, and ``Soap'' with both columns empty. The views report 3 and 3, and 0 and 0.
\<close>

theorem prediction_view_integer_fields_witness:
  "prediction_of (\<lambda>t. []) soap_row \<in> set (get_predicted_purchases (\<lambda>t. []) stored_session 1 0 10)
 \<and> prediction_of (\<lambda>t. []) milk_row \<in> set (get_predicted_purchases (\<lambda>t. []) stored_session 1 0 10)
 \<and> pred_days_since_last (prediction_of (\<lambda>t. []) soap_row) = 0
 \<and> pred_avg_interval (prediction_of (\<lambda>t. []) soap_row) = 0
 \<and> pred_days_since_last (prediction_of (\<lambda>t. []) milk_row) = 3
 \<and> pred_avg_interval (prediction_of (\<lambda>t. []) milk_row) = 3"
proof -
  have rows: "get_predicted_purchases (\<lambda>t. []) stored_session 1 0 10
                = [prediction_of (\<lambda>t. []) milk_row, prediction_of (\<lambda>t. []) soap_row]"
    by (simp add: get_predicted_purchases_def select_predictions_def stored_session_def
        milk_row_def soap_row_def new_product_analytics_def)
  have h1: "prediction_of (\<lambda>t. []) soap_row
              \<in> set (get_predicted_purchases (\<lambda>t. []) stored_session 1 0 10)"
    and h2: "prediction_of (\<lambda>t. []) milk_row
              \<in> set (get_predicted_purchases (\<lambda>t. []) stored_session 1 0 10)"
    by (simp_all add: rows)
  have names: "pred_product_name (prediction_of (\<lambda>t. []) soap_row) = ''Soap''"
    "pred_product_name (prediction_of (\<lambda>t. []) milk_row) = ''Milk''"
    by (simp_all add: prediction_of_def soap_row_def milk_row_def new_product_analytics_def)
  have fl: "\<lfloor>7 / 2 :: rat\<rfloor> = 3"
    by (simp add: floor_eq_iff)
  from prediction_view_integer_fields [OF h1] names
  have "pred_days_since_last (prediction_of (\<lambda>t. []) soap_row) = 0
      \<and> pred_avg_interval (prediction_of (\<lambda>t. []) soap_row) = 0"
    by (auto simp: stored_session_def soap_row_def milk_row_def new_product_analytics_def)
  moreover from prediction_view_integer_fields [OF h2] names
  have "pred_days_since_last (prediction_of (\<lambda>t. []) milk_row) = 3
      \<and> pred_avg_interval (prediction_of (\<lambda>t. []) milk_row) = 3"
    by (auto simp: stored_session_def soap_row_def milk_row_def new_product_analytics_def fl)
  ultimately show ?thesis using h1 h2 by simp
qed

end
